theory Spec2Isabelle
  imports Main "HOL-Library.Word"
begin

section \<open>Resolution patcher: the embedding of \<^verbatim>\<open>patch_resolution.py\<close>\<close>

text \<open>
  The script reads an executable into a \<^verbatim>\<open>bytearray\<close>, plans patches at six fixed
  offsets (\<^verbatim>\<open>create_patches\<close>), writes them into the buffer (\<^verbatim>\<open>apply_patches\<close>)
  and writes the buffer back (\<^verbatim>\<open>main\<close>).

  Conventions of the model:
  \<^item> a byte is an \<open>8 word\<close>, \<^verbatim>\<open>bytes\<close> and \<^verbatim>\<open>bytearray\<close> are byte lists;
  \<^item> Python's \<^verbatim>\<open>int\<close> is \<open>int\<close>;
  \<^item> an exception is a value of \<open>error\<close>; a function that may raise returns
    a sum with the error on the left;
  \<^item> every \<^verbatim>\<open>print\<close> call appends its argument to an output list, one entry per
    call (the trailing newline that \<^verbatim>\<open>print\<close> adds is not stored);
  \<^item> the in-place mutation of the \<^verbatim>\<open>bytearray\<close> is explicit state passing: the
    buffer goes in and the buffer as the call leaves it comes out, also when the call
    raises.
\<close>

subsection \<open>Bytes, \<^verbatim>\<open>struct.pack\<close> and \<^verbatim>\<open>struct.unpack\<close>\<close>

type_synonym byte = "8 word"

datatype error = StructError

text \<open>
  \<^verbatim>\<open>struct.pack('<I', n)\<close>: the four bytes of \<open>n\<close>, least significant first;
  \<^verbatim>\<open>struct.error\<close> when \<open>n\<close> is negative or needs more than 32 bits.
\<close>

definition le32 :: "int \<Rightarrow> byte list" where
  "le32 n = [word_of_int (n mod 256), word_of_int (n div 256 mod 256),
             word_of_int (n div 65536 mod 256), word_of_int (n div 16777216 mod 256)]"

definition pack_I :: "int \<Rightarrow> error + byte list" where
  "pack_I n = (if 0 \<le> n \<and> n < 2 ^ 32 then Inr (le32 n) else Inl StructError)"

text \<open>
  \<^verbatim>\<open>struct.unpack('<I', b)[0]\<close>: \<^verbatim>\<open>struct.error\<close> unless \<open>b\<close> has exactly four
  bytes.
\<close>

definition unpack_I :: "byte list \<Rightarrow> error + int" where
  "unpack_I b =
     (if length b = 4
      then Inr (uint (b ! 0) + 256 * uint (b ! 1) + 65536 * uint (b ! 2) + 16777216 * uint (b ! 3))
      else Inl StructError)"

subsection \<open>Slices\<close>

text \<open>
  A slice bound is an \<^verbatim>\<open>int\<close>; Python adds the length to a negative bound and then
  clamps the bound into \<open>[0, len]\<close>.
\<close>

definition slice_index :: "nat \<Rightarrow> int \<Rightarrow> nat" where
  "slice_index n i = (if i < 0 then nat (max 0 (i + int n)) else min (nat i) n)"

text \<open>\<^verbatim>\<open>xs[lo:hi]\<close>: never raises, and is shorter than \<open>hi - lo\<close> near the end.\<close>

definition py_slice :: "'a list \<Rightarrow> int \<Rightarrow> int \<Rightarrow> 'a list" where
  "py_slice xs lo hi =
     (let a = slice_index (length xs) lo; b = slice_index (length xs) hi
      in take (b - a) (drop a xs))"

text \<open>
  \<^verbatim>\<open>xs[lo:hi] = r\<close> on a \<^verbatim>\<open>bytearray\<close>: the clamped range is replaced by \<open>r\<close>
  whatever the length of \<open>r\<close>, so the buffer may grow or shrink; an empty or inverted
  range inserts at its start.
\<close>

definition py_slice_assign :: "'a list \<Rightarrow> int \<Rightarrow> int \<Rightarrow> 'a list \<Rightarrow> 'a list" where
  "py_slice_assign xs lo hi r =
     (let a = slice_index (length xs) lo; b = max a (slice_index (length xs) hi)
      in take a xs @ r @ drop b xs)"

subsection \<open>Formatting\<close>

definition digit_char :: "nat \<Rightarrow> char" where
  "digit_char d = ''0123456789ABCDEF'' ! d"

function digits :: "nat \<Rightarrow> nat \<Rightarrow> string" where
  "digits b n = (if n < b \<or> b < 2 then [digit_char n]
                 else digits b (n div b) @ [digit_char (n mod b)])"
  by pat_completeness auto
termination
  by (relation "measure (\<lambda>(b, n). n)") auto

declare digits.simps [simp del]

definition zero_pad :: "nat \<Rightarrow> string \<Rightarrow> string" where
  "zero_pad w s = replicate (w - length s) (CHR ''0'') @ s"

text \<open>\<^verbatim>\<open>f"{i}"\<close> for an int.\<close>

definition str_int :: "int \<Rightarrow> string" where
  "str_int i = (if i < 0 then ''-'' @ digits 10 (nat (- i)) else digits 10 (nat i))"

text \<open>\<^verbatim>\<open>f"{i:X}"\<close>: upper-case hexadecimal.\<close>

definition format_X :: "int \<Rightarrow> string" where
  "format_X i = (if i < 0 then ''-'' @ digits 16 (nat (- i)) else digits 16 (nat i))"

text \<open>\<^verbatim>\<open>f"{i:08X}"\<close>: zero-padded to width 8, the sign counted in the width.\<close>

definition format_08X :: "int \<Rightarrow> string" where
  "format_08X i = (if i < 0 then ''-'' @ zero_pad 7 (digits 16 (nat (- i)))
                   else zero_pad 8 (digits 16 (nat i)))"

text \<open>\<^verbatim>\<open>f"{n:,}"\<close> for a length: decimal with a comma between groups of three.\<close>

function format_comma :: "nat \<Rightarrow> string" where
  "format_comma n = (if n < 1000 then digits 10 n
                     else format_comma (n div 1000) @ '','' @ zero_pad 3 (digits 10 (n mod 1000)))"
  by pat_completeness auto
termination
  by (relation "measure id") auto

declare format_comma.simps [simp del]

subsection \<open>The patch descriptor\<close>

text \<open>
  \<^verbatim>\<open>Patch\<close> is a plain \<^verbatim>\<open>@dataclass\<close> with four fields and no \<^verbatim>\<open>__post_init__\<close>:
  the generated constructor stores its arguments and checks nothing.
\<close>

record Patch =
  offset :: int
  original :: "byte list"
  replacement :: "byte list"
  description :: string

definition Patch_init :: "int \<Rightarrow> byte list \<Rightarrow> byte list \<Rightarrow> string \<Rightarrow> Patch" where
  "Patch_init off orig new desc =
     \<lparr>offset = off, original = orig, replacement = new, description = desc\<rparr>"

subsection \<open>\<^verbatim>\<open>create_patches\<close>\<close>

definition banner :: "int \<Rightarrow> int \<Rightarrow> string" where
  "banner target_width target_height =
     [CHR ''\<newline>''] @ ''Patching 3840x2160 -> '' @ str_int target_width @ ''x''
       @ str_int target_height"

definition table_offset :: int where
  "table_offset = 0xBDA4F0"

definition code_patches ::
  "byte list \<Rightarrow> byte list \<Rightarrow> byte list \<Rightarrow> byte list \<Rightarrow> (int \<times> byte list \<times> byte list \<times> string) list"
where
  "code_patches orig_width orig_height new_width new_height =
     [(0x054DF7, orig_width, new_width, ''Width getter (mov eax, 3840)''),
      (0x4B4305, orig_width, new_width, ''Resolution param width (mov edx, 3840)''),
      (0x054D37, orig_height, new_height, ''Height getter (mov eax, 2160)''),
      (0x4B430B, orig_height, new_height, ''Resolution param height (mov r8d, 2160)'')]"

definition warning :: "int \<Rightarrow> string \<Rightarrow> string" where
  "warning off desc = ''WARNING: Mismatch at 0x'' @ format_X off @ '', skipping: '' @ desc"

text \<open>
  The \<^verbatim>\<open>for\<close> loop over \<^verbatim>\<open>code_patches\<close>; the state is the output so far and the
  list \<^verbatim>\<open>patches\<close>.
\<close>

fun code_loop ::
  "byte list \<Rightarrow> (int \<times> byte list \<times> byte list \<times> string) list
     \<Rightarrow> string list \<times> Patch list \<Rightarrow> string list \<times> Patch list"
where
  "code_loop data [] st = st"
| "code_loop data ((off, orig, new, desc) # rest) (out, patches) =
     (if py_slice data off (off + 4) = orig
      then code_loop data rest (out, patches @ [Patch_init off orig new desc])
      else code_loop data rest (out @ [warning off desc], patches))"

definition create_patches :: "byte list \<Rightarrow> int \<Rightarrow> int \<Rightarrow> string list \<times> (error + Patch list)" where
  "create_patches data target_width target_height =
     (let out = [banner target_width target_height] in
      case pack_I 3840 of Inl e \<Rightarrow> (out, Inl e) | Inr orig_width \<Rightarrow>
     (case pack_I 2160 of Inl e \<Rightarrow> (out, Inl e) | Inr orig_height \<Rightarrow>
     (case pack_I target_width of Inl e \<Rightarrow> (out, Inl e) | Inr new_width \<Rightarrow>
     (case pack_I target_height of Inl e \<Rightarrow> (out, Inl e) | Inr new_height \<Rightarrow>
      let patches = [];
          patches =
            (if py_slice data table_offset (table_offset + 4) = orig_width
             then patches @ [Patch_init table_offset orig_width new_width
                    (''Resolution table: 3840 -> '' @ str_int target_width @ '' (width)'')]
             else patches);
          patches =
            (if py_slice data (table_offset + 4) (table_offset + 8) = orig_height
             then patches @ [Patch_init (table_offset + 4) orig_height new_height
                    (''Resolution table: 2160 -> '' @ str_int target_height @ '' (height)'')]
             else patches);
          (out, patches) =
            code_loop data (code_patches orig_width orig_height new_width new_height)
              (out, patches)
      in (out, Inr patches)))))"

subsection \<open>\<^verbatim>\<open>apply_patches\<close>\<close>

definition rule_line :: string where
  "rule_line = replicate 60 (CHR ''='')"

definition patch_line :: "int \<Rightarrow> int \<Rightarrow> int \<Rightarrow> string" where
  "patch_line off orig_val new_val =
     ''  0x'' @ format_08X off @ '': '' @ str_int orig_val @ '' -> '' @ str_int new_val"

text \<open>
  The \<^verbatim>\<open>for\<close> loop over \<^verbatim>\<open>patches\<close>; the state is the buffer and the output so
  far. An exception of \<^verbatim>\<open>struct.unpack\<close> leaves the loop with the buffer as the
  earlier iterations have written it.
\<close>

fun apply_loop ::
  "bool \<Rightarrow> Patch list \<Rightarrow> byte list \<times> string list \<Rightarrow> byte list \<times> string list \<times> error option"
where
  "apply_loop dry [] (data, out) = (data, out, None)"
| "apply_loop dry (patch # rest) (data, out) =
     (case unpack_I (original patch) of Inl e \<Rightarrow> (data, out, Some e) | Inr orig_val \<Rightarrow>
     (case unpack_I (replacement patch) of Inl e \<Rightarrow> (data, out, Some e) | Inr new_val \<Rightarrow>
      let out = out @ [patch_line (offset patch) orig_val new_val,
                       replicate 19 (CHR '' '') @ description patch];
          data = (if \<not> dry
                  then py_slice_assign data (offset patch)
                         (offset patch + int (length (replacement patch))) (replacement patch)
                  else data)
      in apply_loop dry rest (data, out)))"

text \<open>
  The result is the buffer as the call leaves it, the output, and \<open>None\<close> when the call
  returns (it returns the buffer it was given) or the exception it raises.
\<close>

definition apply_patches ::
  "byte list \<Rightarrow> Patch list \<Rightarrow> bool \<Rightarrow> byte list \<times> string list \<times> error option"
where
  "apply_patches data patches dry =
     (let out = [[CHR ''\<newline>''] @ rule_line,
                 (if \<not> dry then ''PATCHES TO APPLY:'' else ''PATCHES (DRY RUN):''),
                 rule_line]
      in case apply_loop dry patches (data, out) of
           (data, out, Some e) \<Rightarrow> (data, out, Some e)
         | (data, out, None) \<Rightarrow>
             (data,
              out @ [[CHR ''\<newline>''] @ ''Total patches: '' @ str_int (int (length patches))],
              None))"

subsection \<open>\<^verbatim>\<open>main\<close>\<close>

text \<open>
  The parsed command line. The file system is a map from paths to file contents; a path
  in its domain is a readable and writable regular file. \<open>backup_path\<close> stands for the
  value of \<^verbatim>\<open>args.exe_path.with_suffix('.exe.backup')\<close>, which the standard library
  computes. The result is the file system afterwards, the output, and the value
  \<^verbatim>\<open>main\<close> returns or the exception that leaves it.
\<close>

record args =
  exe_path :: string
  dry_run :: bool
  width :: int
  height :: int
  no_backup :: bool

type_synonym fs = "string \<rightharpoonup> byte list"

definition no_patches_message :: string where
  "no_patches_message =
     [CHR ''\<newline>''] @ ''No patches could be created. The executable may be different from expected.''"

definition write_back :: "args \<Rightarrow> string \<Rightarrow> byte list \<Rightarrow> byte list \<Rightarrow> fs \<times> string list \<Rightarrow> fs \<times> string list" where
  \<open>write_back a backup_path content data st =
     (let (files, out) = st;
          (files, out) =
            (if \<not> no_backup a
             then (case files backup_path of
                     None \<Rightarrow> (files(backup_path \<mapsto> content),
                               out @ [[CHR ''\<newline>''] @ ''Creating backup: '' @ backup_path])
                   | Some b \<Rightarrow> (files,
                               out @ [[CHR ''\<newline>''] @ ''Backup already exists: '' @ backup_path]))
             else (files, out));
          files = files(exe_path a \<mapsto> data);
          out = out @
            [[CHR ''\<newline>''] @ rule_line, ''DONE!'', rule_line,
             [CHR ''\<newline>''] @ ''Update your userconfig.properties:'',
             ''  "App.Window.W" : '' @ str_int (width a) @ '','',
             ''  "App.Window.H" : '' @ str_int (height a) @ '','',
             [CHR ''\<newline>''] @ ''Restore from backup if needed:'',
             ''  copy '' @ backup_path @ '' '' @ exe_path a]
      in (files, out))\<close>

definition main :: "args \<Rightarrow> string \<Rightarrow> fs \<Rightarrow> fs \<times> string list \<times> (error + int)" where
  "main a backup_path files =
     (case files (exe_path a) of
        None \<Rightarrow> (files, [''Error: File not found: '' @ exe_path a], Inr 1)
      | Some content \<Rightarrow>
         (let out = [''Resolution Patch for The Hundred Line'',
                     ''Target resolution: '' @ str_int (width a) @ ''x'' @ str_int (height a),
                     rule_line];
              data = content;
              out = out @ [''File size: '' @ format_comma (length data) @ '' bytes''];
              (out1, r) = create_patches data (width a) (height a);
              out = out @ out1
          in (case r of
               Inl e \<Rightarrow> (files, out, Inl e)
             | Inr patches \<Rightarrow>
                 if patches = [] then (files, out @ [no_patches_message], Inr 1)
                 else
                   (case apply_patches data patches (dry_run a) of
                      (data, out2, Some e) \<Rightarrow> (files, out @ out2, Inl e)
                    | (data, out2, None) \<Rightarrow>
                        if dry_run a
                        then (files, out @ out2 @ [[CHR ''\<newline>''] @ ''[DRY RUN] No changes made.''],
                              Inr 0)
                        else
                          (let (files, out) =
                                 write_back a backup_path content data (files, out @ out2)
                           in (files, out, Inr 0))))))"

subsection \<open>Vocabulary of the properties\<close>

text \<open>
  The six descriptors that \<^verbatim>\<open>create_patches\<close> considers for a target resolution, in
  the order in which it considers them: the two entries of the resolution table, then
  the four entries of \<^verbatim>\<open>code_patches\<close>.
\<close>

definition fixed_descriptors :: "int \<Rightarrow> int \<Rightarrow> Patch list" where
  "fixed_descriptors target_width target_height =
     [Patch_init table_offset (le32 3840) (le32 target_width)
        (''Resolution table: 3840 -> '' @ str_int target_width @ '' (width)''),
      Patch_init (table_offset + 4) (le32 2160) (le32 target_height)
        (''Resolution table: 2160 -> '' @ str_int target_height @ '' (height)'')]
     @ map (\<lambda>(off, orig, new, desc). Patch_init off orig new desc)
         (code_patches (le32 3840) (le32 2160) (le32 target_width) (le32 target_height))"

text \<open>The buffer holds the descriptor's expected bytes at its offset.\<close>

definition matches :: "byte list \<Rightarrow> Patch \<Rightarrow> bool" where
  "matches data p \<longleftrightarrow> py_slice data (offset p) (offset p + 4) = original p"

text \<open>Index \<open>i\<close> of the buffer lies in the descriptor's range \<open>[offset, offset + 4)\<close>.\<close>

definition covers :: "Patch \<Rightarrow> nat \<Rightarrow> bool" where
  "covers p i \<longleftrightarrow> offset p \<le> int i \<and> int i < offset p + 4"

text \<open>The ranges of the descriptors of a list are pairwise disjoint.\<close>

fun separated :: "Patch list \<Rightarrow> bool" where
  "separated [] = True"
| "separated (p # ps) =
     ((\<forall>q\<in>set ps. offset p + 4 \<le> offset q \<or> offset q + 4 \<le> offset p) \<and> separated ps)"

text \<open>The descriptor's range lies in the buffer and both its byte strings have four bytes.\<close>

definition in_bounds :: "byte list \<Rightarrow> Patch \<Rightarrow> bool" where
  "in_bounds data p \<longleftrightarrow>
     0 \<le> offset p \<and> offset p + 4 \<le> int (length data)
     \<and> length (original p) = 4 \<and> length (replacement p) = 4"

text \<open>The output of \<^verbatim>\<open>main\<close> before it calls \<^verbatim>\<open>create_patches\<close>.\<close>

definition main_header :: "args \<Rightarrow> byte list \<Rightarrow> string list" where
  "main_header a content =
     [''Resolution Patch for The Hundred Line'',
      ''Target resolution: '' @ str_int (width a) @ ''x'' @ str_int (height a),
      rule_line,
      ''File size: '' @ format_comma (length content) @ '' bytes'']"

section \<open>Properties\<close>

subsection \<open>Packing and slices\<close>

lemma length_le32: "length (le32 n) = 4"
  by (simp add: le32_def)

lemma pack_I_Inr: "pack_I n = Inr b \<longleftrightarrow> 0 \<le> n \<and> n < 2 ^ 32 \<and> b = le32 n"
  by (auto simp: pack_I_def)

text \<open>
  Packing is injective on the representable range, so two targets have different
  encodings exactly when they are different numbers.
\<close>

lemma byte_of_int_inj:
  assumes "(word_of_int (a mod 256) :: byte) = word_of_int (b mod 256)"
  shows "a mod 256 = b mod 256"
proof -
  have "take_bit 8 (a mod 256) = take_bit 8 (b mod 256)"
    using assms by (simp add: word_of_int_eq_iff)
  then show ?thesis
    by (simp add: take_bit_eq_mod)
qed


lemma split32:
  "(a::int) = a mod 256 + 256 * (a div 256 mod 256) + 65536 * (a div 65536 mod 256)
              + 16777216 * (a div 16777216)"
proof -
  have d1: "a div 65536 = a div 256 div 256"
    using zdiv_zmult2_eq [of 256 a 256] by simp
  have d2: "a div 16777216 = a div 65536 div 256"
    using zdiv_zmult2_eq [of 256 a 65536] by simp
  have s0: "a = a mod 256 + 256 * (a div 256)" by simp
  have s1: "a div 256 = a div 256 mod 256 + 256 * (a div 65536)"
    unfolding d1 by simp
  have s2: "a div 65536 = a div 65536 mod 256 + 256 * (a div 16777216)"
    unfolding d2 by simp
  show ?thesis
    using s0 s1 s2 by linarith
qed

lemma le32_inj:
  assumes "le32 a = le32 b" "0 \<le> a" "a < 2 ^ 32" "0 \<le> b" "b < 2 ^ 32"
  shows "a = b"
proof -
  have e0: "a mod 256 = b mod 256"
    and e1: "a div 256 mod 256 = b div 256 mod 256"
    and e2: "a div 65536 mod 256 = b div 65536 mod 256"
    and e3: "a div 16777216 mod 256 = b div 16777216 mod 256"
    using assms(1) by (auto simp: le32_def dest: byte_of_int_inj)
  have "a div 16777216 < 256" "b div 16777216 < 256" "0 \<le> a div 16777216" "0 \<le> b div 16777216"
    using assms(2-5) by auto
  with e3 have "a div 16777216 = b div 16777216" by simp
  with e0 e1 e2 split32 [of a] split32 [of b] show ?thesis by simp
qed
lemma slice_index_nonneg: "0 \<le> i \<Longrightarrow> slice_index n i = min (nat i) n"
  by (simp add: slice_index_def)

lemma py_slice_4:
  assumes "0 \<le> off"
  shows "py_slice xs off (off + 4) = take 4 (drop (nat off) xs)"
proof (cases "nat off \<le> length xs")
  case True
  then show ?thesis using assms
    by (auto simp: py_slice_def slice_index_nonneg Let_def min_def nat_add_distrib)
next
  case False
  then show ?thesis using assms
    by (simp add: py_slice_def slice_index_nonneg Let_def)
qed

lemma py_slice_4_eq_iff:
  assumes "0 \<le> off" "length b = 4"
  shows "py_slice xs off (off + 4) = b \<longleftrightarrow>
         off + 4 \<le> int (length xs) \<and> (\<forall>k<4. xs ! (nat off + k) = b ! k)"
proof -
  have "take 4 (drop (nat off) xs) = b \<longleftrightarrow>
        nat off + 4 \<le> length xs \<and> (\<forall>k<4. xs ! (nat off + k) = b ! k)"
    using assms(2) by (auto simp: list_eq_iff_nth_eq)
  moreover have "(nat off + 4 \<le> length xs) = (off + 4 \<le> int (length xs))"
    using assms(1) by linarith
  ultimately show ?thesis using assms(1) by (simp add: py_slice_4)
qed

lemma py_slice_assign_4:
  assumes "0 \<le> off" "off + 4 \<le> int (length xs)"
  shows "py_slice_assign xs off (off + 4) r = take (nat off) xs @ r @ drop (nat off + 4) xs"
  using assms by (simp add: py_slice_assign_def slice_index_nonneg Let_def nat_add_distrib min_def max_def)

lemma length_py_slice_assign_4:
  assumes "0 \<le> off" "off + 4 \<le> int (length xs)" "length r = 4"
  shows "length (py_slice_assign xs off (off + 4) r) = length xs"
proof -
  have "nat off + 4 \<le> length xs" using assms(1,2) by linarith
  then show ?thesis using assms by (simp add: py_slice_assign_4)
qed

lemma nth_py_slice_assign_4:
  assumes "0 \<le> off" "off + 4 \<le> int (length xs)" "length r = 4" "i < length xs"
  shows "py_slice_assign xs off (off + 4) r ! i =
         (if off \<le> int i \<and> int i < off + 4 then r ! (i - nat off) else xs ! i)"
proof -
  have n: "nat off + 4 \<le> length xs" using assms(1,2) by linarith
  consider "i < nat off" | "nat off \<le> i" "i < nat off + 4" | "nat off + 4 \<le> i" by linarith
  then show ?thesis
  proof cases
    case 1
    then have "\<not> off \<le> int i" using assms(1) by linarith
    with 1 show ?thesis using assms n by (simp add: py_slice_assign_4 nth_append)
  next
    case 2
    then have "off \<le> int i" "int i < off + 4" using assms(1) by linarith+
    moreover have "i - nat off < 4" using 2 by linarith
    ultimately show ?thesis using 2 assms n by (simp add: py_slice_assign_4 nth_append)
  next
    case 3
    then have "\<not> int i < off + 4" using assms(1) by linarith
    moreover have "nat off + 4 + (i - (nat off + 4)) = i" using 3 by simp
    moreover have "\<not> i - nat off < 4" "\<not> i < nat off" using 3 by linarith+
    ultimately show ?thesis using 3 assms n
      by (simp add: py_slice_assign_4 nth_append)
  qed
qed

subsection \<open>The plan that \<^verbatim>\<open>create_patches\<close> returns\<close>

lemma code_loop_eq:
  "code_loop data cps (out, ps) =
     (out @ map (\<lambda>(off, orig, new, desc). warning off desc)
              (filter (\<lambda>(off, orig, new, desc). py_slice data off (off + 4) \<noteq> orig) cps),
      ps @ map (\<lambda>(off, orig, new, desc). Patch_init off orig new desc)
             (filter (\<lambda>(off, orig, new, desc). py_slice data off (off + 4) = orig) cps))"
  by (induction cps arbitrary: out ps) auto

lemma matches_Patch_init:
  "matches data (Patch_init off orig new desc) \<longleftrightarrow> py_slice data off (off + 4) = orig"
  by (simp add: matches_def Patch_init_def)

lemma filter_matches_map:
  "filter (matches data) (map (\<lambda>(off, orig, new, desc). Patch_init off orig new desc) cps) =
   map (\<lambda>(off, orig, new, desc). Patch_init off orig new desc)
     (filter (\<lambda>(off, orig, new, desc). py_slice data off (off + 4) = orig) cps)"
  by (induction cps) (auto simp: matches_Patch_init)

lemma create_patches_eq:
  assumes "0 \<le> tw" "tw < 2 ^ 32" "0 \<le> th" "th < 2 ^ 32"
  shows "create_patches data tw th =
           (banner tw th #
              map (\<lambda>(off, orig, new, desc). warning off desc)
                (filter (\<lambda>(off, orig, new, desc). py_slice data off (off + 4) \<noteq> orig)
                   (code_patches (le32 3840) (le32 2160) (le32 tw) (le32 th))),
            Inr (filter (matches data) (fixed_descriptors tw th)))"
  using assms
  by (simp add: create_patches_def pack_I_def code_loop_eq fixed_descriptors_def
      filter_matches_map matches_Patch_init Let_def add.assoc)

lemma create_patches_error:
  assumes "tw < 0 \<or> 2 ^ 32 \<le> tw \<or> th < 0 \<or> 2 ^ 32 \<le> th"
  shows "create_patches data tw th = ([banner tw th], Inl StructError)"
  using assms by (auto simp: create_patches_def pack_I_def Let_def)

lemma create_patches_Inr:
  assumes "create_patches data tw th = (out, Inr ps)"
  shows "0 \<le> tw \<and> tw < 2 ^ 32 \<and> 0 \<le> th \<and> th < 2 ^ 32"
  using assms create_patches_error [of tw th data] by fastforce

subsection \<open>Shape of the descriptors and of the loop\<close>

lemma fixed_offsets:
  "map offset (fixed_descriptors tw th) =
     [12428528, 12428532, 347639, 4932357, 347447, 4932363]"
  by (simp add: fixed_descriptors_def code_patches_def Patch_init_def table_offset_def)

lemma fixed_shape:
  assumes "p \<in> set (fixed_descriptors tw th)"
  shows "0 \<le> offset p \<and> length (original p) = 4 \<and> length (replacement p) = 4"
  using assms
  by (auto simp: fixed_descriptors_def code_patches_def Patch_init_def table_offset_def
      length_le32)

lemma separated_offsets:
  "separated ps \<longleftrightarrow> separated (map (\<lambda>k. Patch_init k [] [] []) (map offset ps))"
  by (induction ps) (auto simp: Patch_init_def)

lemma separated_fixed: "separated (fixed_descriptors tw th)"
  by (subst separated_offsets) (simp add: fixed_offsets Patch_init_def)

lemma separated_filter: "separated ps \<Longrightarrow> separated (filter P ps)"
  by (induction ps) auto

lemma matches_in_bounds:
  assumes "matches data p" "0 \<le> offset p" "length (original p) = 4" "length (replacement p) = 4"
  shows "in_bounds data p"
  using assms by (simp add: matches_def in_bounds_def py_slice_4_eq_iff)

lemma plan_in_bounds:
  assumes "p \<in> set (filter (matches data) (fixed_descriptors tw th))"
  shows "in_bounds data p"
  using assms fixed_shape [of p tw th] by (simp add: matches_in_bounds)

lemma in_bounds_length:
  "length data' = length data \<Longrightarrow> in_bounds data' p = in_bounds data p"
  by (simp add: in_bounds_def)

lemma unpack_I_4: "length b = 4 \<Longrightarrow> \<exists>v. unpack_I b = Inr v"
  by (simp add: unpack_I_def)

lemma unpack_I_Inr: "unpack_I b = Inr v \<Longrightarrow> length b = 4"
  by (simp add: unpack_I_def split: if_splits)

lemma apply_loop_dry:
  "apply_loop True ps (data, out) = (data', out', r) \<Longrightarrow> data' = data"
  by (induction ps arbitrary: out) (auto simp: Let_def split: sum.splits)

text \<open>A run of the loop that returns has met four-byte strings only.\<close>

lemma apply_loop_returns:
  "apply_loop dry ps (data, out) = (data', out', None) \<Longrightarrow>
     \<forall>p\<in>set ps. length (original p) = 4 \<and> length (replacement p) = 4"
proof (induction ps arbitrary: data out)
  case Nil
  then show ?case by simp
next
  case (Cons p ps)
  from Cons.prems obtain v w where v: "unpack_I (original p) = Inr v"
    and w: "unpack_I (replacement p) = Inr w"
    by (auto split: sum.splits)
  from Cons.prems v w obtain d o2 where "apply_loop dry ps (d, o2) = (data', out', None)"
    by (simp add: Let_def)
  then have "\<forall>p\<in>set ps. length (original p) = 4 \<and> length (replacement p) = 4"
    by (rule Cons.IH)
  with v w show ?case by (simp add: unpack_I_Inr)
qed

subsection \<open>The loop of \<^verbatim>\<open>apply_patches\<close> when it writes\<close>

lemma apply_loop_step:
  assumes "in_bounds data p"
  shows "\<exists>out1. apply_loop False (p # ps) (data, out) =
           apply_loop False ps
             (py_slice_assign data (offset p) (offset p + 4) (replacement p), out1)"
proof -
  from assms have lo: "length (original p) = 4" and lr: "length (replacement p) = 4"
    by (simp_all add: in_bounds_def)
  from unpack_I_4 [OF lo] obtain v where v: "unpack_I (original p) = Inr v" ..
  from unpack_I_4 [OF lr] obtain w where w: "unpack_I (replacement p) = Inr w" ..
  show ?thesis
    by (simp add: v w lr Let_def) blast
qed

lemma in_bounds_write:
  assumes "in_bounds data p"
  shows "length (py_slice_assign data (offset p) (offset p + 4) (replacement p)) = length data"
  using assms by (simp add: in_bounds_def length_py_slice_assign_4)

lemma nth_write:
  assumes "in_bounds data p" "i < length data"
  shows "py_slice_assign data (offset p) (offset p + 4) (replacement p) ! i =
           (if covers p i then replacement p ! (i - nat (offset p)) else data ! i)"
  using assms by (simp add: in_bounds_def covers_def nth_py_slice_assign_4)

lemma apply_loop_commit:
  assumes "\<forall>p\<in>set ps. in_bounds data p"
    and "apply_loop False ps (data, out) = (data', out', r)"
  shows "r = None \<and> length data' = length data
         \<and> (\<forall>i<length data. (\<forall>p\<in>set ps. \<not> covers p i) \<longrightarrow> data' ! i = data ! i)"
  using assms
proof (induction ps arbitrary: data out)
  case Nil
  then show ?case by simp
next
  case (Cons p ps)
  let ?d = "py_slice_assign data (offset p) (offset p + 4) (replacement p)"
  have p: "in_bounds data p" using Cons.prems(1) by simp
  have len: "length ?d = length data" by (rule in_bounds_write [OF p])
  from apply_loop_step [OF p, of ps out] Cons.prems(2)
  obtain out1 where run: "apply_loop False ps (?d, out1) = (data', out', r)" by auto
  have "\<forall>q\<in>set ps. in_bounds ?d q"
    using Cons.prems(1) by (simp add: in_bounds_length [OF len])
  from Cons.IH [OF this run]
  have r: "r = None" and l: "length data' = length ?d"
    and frame: "\<forall>i<length ?d. (\<forall>q\<in>set ps. \<not> covers q i) \<longrightarrow> data' ! i = ?d ! i"
    by simp_all
  have "data' ! i = data ! i" if "i < length data" "\<forall>q\<in>set (p # ps). \<not> covers q i" for i
  proof -
    have "data' ! i = ?d ! i" using frame that len by simp
    also have "?d ! i = data ! i" using nth_write [OF p that(1)] that(2) by simp
    finally show ?thesis .
  qed
  with r l len show ?case by simp
qed

lemma apply_loop_written:
  assumes "\<forall>p\<in>set ps. in_bounds data p" and "separated ps"
    and "apply_loop False ps (data, out) = (data', out', r)"
    and "p \<in> set ps" and "covers p i"
  shows "data' ! i = replacement p ! (i - nat (offset p))"
  using assms
proof (induction ps arbitrary: data out)
  case Nil
  then show ?case by simp
next
  case (Cons q ps)
  let ?d = "py_slice_assign data (offset q) (offset q + 4) (replacement q)"
  have q: "in_bounds data q" using Cons.prems(1) by simp
  have len: "length ?d = length data" by (rule in_bounds_write [OF q])
  from apply_loop_step [OF q, of ps out] Cons.prems(3)
  obtain out1 where run: "apply_loop False ps (?d, out1) = (data', out', r)" by auto
  have inb: "\<forall>x\<in>set ps. in_bounds ?d x"
    using Cons.prems(1) by (simp add: in_bounds_length [OF len])
  have sep: "separated ps" using Cons.prems(2) by simp
  show ?case
  proof (cases "p \<in> set ps")
    case True
    from Cons.IH [OF inb sep run True Cons.prems(5)] show ?thesis .
  next
    case False
    with Cons.prems(4) have pq: "p = q" by simp
    have i: "i < length data"
      using q Cons.prems(5) by (simp add: in_bounds_def covers_def pq)
    have "\<forall>x\<in>set ps. \<not> covers x i"
      using Cons.prems(2,5) by (auto simp: covers_def pq)
    with apply_loop_commit [OF inb run] i len have "data' ! i = ?d ! i" by simp
    also have "?d ! i = replacement p ! (i - nat (offset p))"
      using nth_write [OF q i] Cons.prems(5) by (simp add: pq)
    finally show ?thesis .
  qed
qed

subsection \<open>Claims about planning and dry runs\<close>

lemma replicate_4: "replicate 4 x = [x, x, x, x]"
  by (simp add: eval_nat_numeral)

lemmas eval_simps =
  create_patches_def pack_I_def le32_def py_slice_def slice_index_def table_offset_def
  code_patches_def Patch_init_def banner_def warning_def str_int_def format_X_def
  digits.simps digit_char_def Let_def fixed_descriptors_def replicate_4

text \<open>
  \<^bold>\<open>C1.\<close> For a representable target resolution \<^verbatim>\<open>create_patches\<close> returns a plan, and
  the plan is the fixed descriptor list filtered by the byte comparison: a descriptor of
  the list is in the plan if and only if the buffer's slice \<open>[offset, offset + 4)\<close>
  equals its expected bytes, and every entry of the plan is a whole descriptor of the
  list.
\<close>

theorem create_patches_accepts_iff_match:
  assumes "0 \<le> tw" "tw < 2 ^ 32" "0 \<le> th" "th < 2 ^ 32"
  shows "\<exists>out ps. create_patches data tw th = (out, Inr ps)
           \<and> ps = filter (matches data) (fixed_descriptors tw th)
           \<and> set ps \<subseteq> set (fixed_descriptors tw th)
           \<and> (\<forall>d\<in>set (fixed_descriptors tw th).
                 d \<in> set ps \<longleftrightarrow> py_slice data (offset d) (offset d + 4) = original d)"
  using assms by (auto simp: create_patches_eq matches_def)

theorem create_patches_accepts_iff_match_witness:
  "\<exists>out. create_patches (replicate 347447 0 @ [112, 8, 0, 0]) 5120 2880 =
      (out, Inr [\<lparr>offset = 347447, original = [112, 8, 0, 0], replacement = [64, 11, 0, 0],
                   description = ''Height getter (mov eax, 2160)''\<rparr>])"
proof -
  have m: "filter (matches (replicate 347447 0 @ [112, 8, 0, 0])) (fixed_descriptors 5120 2880) =
      [\<lparr>offset = 347447, original = [112, 8, 0, 0], replacement = [64, 11, 0, 0],
                   description = ''Height getter (mov eax, 2160)''\<rparr>]"
    by (simp add: matches_def eval_simps)
  show ?thesis
    using create_patches_accepts_iff_match [of 5120 2880 "replicate 347447 0 @ [112, 8, 0, 0]"]
    by (auto simp add: m)
qed



text \<open>
  \<^bold>\<open>C3.\<close> With \<^verbatim>\<open>dry_run=True\<close> the buffer that \<^verbatim>\<open>apply_patches\<close> leaves is the buffer
  it was given, for every buffer and every plan, also when the call raises.
\<close>

theorem apply_patches_dry_run_keeps_buffer:
  "fst (apply_patches data ps True) = data"
proof -
  obtain d out r where
    run: "apply_loop True ps (data,
            [[CHR ''\<newline>''] @ rule_line, ''PATCHES (DRY RUN):'', rule_line]) = (d, out, r)"
    by (metis prod_cases3)
  from apply_loop_dry [OF run] have "d = data" .
  with run show ?thesis
    by (cases r) (simp_all add: apply_patches_def)
qed

theorem apply_patches_dry_run_keeps_buffer_witness:
  "fst (apply_patches [1, 2, 3, 4, 5] [Patch_init 1 [2, 3, 4, 5] [9, 9, 9, 9] ''p'',
      Patch_init 0 [1, 2] [7] ''q''] True) = [1, 2, 3, 4, 5]"
  using apply_patches_dry_run_keeps_buffer
    [of "[1, 2, 3, 4, 5]" "[Patch_init 1 [2, 3, 4, 5] [9, 9, 9, 9] ''p'',
      Patch_init 0 [1, 2] [7] ''q'']"]
  by simp

subsection \<open>Plans of \<^verbatim>\<open>create_patches\<close> under \<^verbatim>\<open>apply_patches\<close>\<close>

lemma apply_patches_loop:
  assumes "apply_patches data ps dry = (data', out', r)"
  shows "\<exists>out0 out1. apply_loop dry ps (data, out0) = (data', out1, r)"
proof -
  let ?hdr = "[[CHR ''\<newline>''] @ rule_line,
               (if \<not> dry then ''PATCHES TO APPLY:'' else ''PATCHES (DRY RUN):''), rule_line]"
  obtain d out1 r1 where run: "apply_loop dry ps (data, ?hdr) = (d, out1, r1)"
    by (metis prod_cases3)
  with assms have "d = data'" "r1 = r"
    by (cases r1; simp add: apply_patches_def)+
  with run show ?thesis by blast
qed

lemma apply_loop_total:
  assumes "\<forall>p\<in>set ps. length (original p) = 4 \<and> length (replacement p) = 4"
  shows "\<exists>d out1. apply_loop dry ps (data, out) = (d, out1, None)"
  using assms
proof (induction ps arbitrary: data out)
  case Nil
  then show ?case by simp
next
  case (Cons p ps)
  from Cons.prems have lo: "length (original p) = 4" and lr: "length (replacement p) = 4"
    by simp_all
  from unpack_I_4 [OF lo] obtain v where v: "unpack_I (original p) = Inr v" ..
  from unpack_I_4 [OF lr] obtain w where w: "unpack_I (replacement p) = Inr w" ..
  from Cons.prems have "\<forall>p\<in>set ps. length (original p) = 4 \<and> length (replacement p) = 4"
    by simp
  from Cons.IH [OF this] show ?case
    by (simp add: v w Let_def)
qed

lemma apply_patches_total:
  assumes "\<forall>p\<in>set ps. length (original p) = 4 \<and> length (replacement p) = 4"
  shows "\<exists>d out1. apply_patches data ps dry = (d, out1, None)"
proof -
  from apply_loop_total [OF assms] obtain d out1 where
    "apply_loop dry ps (data, [[CHR ''\<newline>''] @ rule_line,
        (if \<not> dry then ''PATCHES TO APPLY:'' else ''PATCHES (DRY RUN):''), rule_line])
      = (d, out1, None)"
    by blast
  then show ?thesis by (simp add: apply_patches_def)
qed

lemma plan_facts:
  assumes "create_patches data tw th = (out, Inr ps)"
  shows "ps = filter (matches data) (fixed_descriptors tw th)"
    and "\<forall>p\<in>set ps. in_bounds data p"
    and "separated ps"
proof -
  from create_patches_Inr [OF assms]
  have "create_patches data tw th
          = (fst (create_patches data tw th), Inr (filter (matches data) (fixed_descriptors tw th)))"
    by (simp add: create_patches_eq)
  with assms show eq: "ps = filter (matches data) (fixed_descriptors tw th)" by simp
  show "\<forall>p\<in>set ps. in_bounds data p"
    unfolding eq using plan_in_bounds by blast
  show "separated ps"
    unfolding eq by (rule separated_filter [OF separated_fixed])
qed

lemma written_slice:
  assumes "in_bounds data p" "length data' = length data"
    and "\<forall>i. covers p i \<longrightarrow> data' ! i = replacement p ! (i - nat (offset p))"
  shows "py_slice data' (offset p) (offset p + 4) = replacement p"
proof -
  from assms(1) have o: "0 \<le> offset p" and l: "length (replacement p) = 4"
    and b: "offset p + 4 \<le> int (length data')"
    by (simp_all add: in_bounds_def assms(2))
  have "data' ! (nat (offset p) + k) = replacement p ! k" if "k < 4" for k
  proof -
    have "covers p (nat (offset p) + k)" using o that by (simp add: covers_def)
    with assms(3) show ?thesis by fastforce
  qed
  with b show ?thesis by (simp add: py_slice_4_eq_iff [OF o l])
qed

subsection \<open>Claims about committed plans\<close>

lemma plan_commit:
  assumes "create_patches data tw th = (out, Inr ps)"
    and "apply_patches data ps False = (data', out', r)"
  shows "r = None \<and> length data' = length data
         \<and> (\<forall>p\<in>set ps. py_slice data' (offset p) (offset p + 4) = replacement p)
         \<and> (\<forall>i<length data. (\<forall>p\<in>set ps. \<not> covers p i) \<longrightarrow> data' ! i = data ! i)"
proof -
  note inb = plan_facts(2) [OF assms(1)] and sep = plan_facts(3) [OF assms(1)]
  from apply_patches_loop [OF assms(2)] obtain out0 out1 where
    run: "apply_loop False ps (data, out0) = (data', out1, r)" by blast
  from apply_loop_commit [OF inb run]
  have r: "r = None" and len: "length data' = length data"
    and frame: "\<forall>i<length data. (\<forall>p\<in>set ps. \<not> covers p i) \<longrightarrow> data' ! i = data ! i"
    by simp_all
  have "py_slice data' (offset p) (offset p + 4) = replacement p" if p: "p \<in> set ps" for p
  proof (rule written_slice)
    show "in_bounds data p" using inb p by simp
    show "length data' = length data" by (rule len)
    show "\<forall>i. covers p i \<longrightarrow> data' ! i = replacement p ! (i - nat (offset p))"
      using apply_loop_written [OF inb sep run p] by simp
  qed
  with r len frame show ?thesis by simp
qed

text \<open>
  \<^bold>\<open>C2.\<close> On a plan that \<^verbatim>\<open>create_patches\<close> produced from the same buffer,
  \<^verbatim>\<open>apply_patches\<close> with \<^verbatim>\<open>dry_run=False\<close> returns, keeps the length of the buffer,
  leaves the replacement bytes in the range \<open>[offset, offset + 4)\<close> of every accepted
  patch, and leaves every index outside these ranges as it was.
\<close>

theorem apply_patches_commit_frame:
  assumes "create_patches data tw th = (out, Inr ps)"
    and "apply_patches data ps False = (data', out', r)"
  shows "r = None \<and> length data' = length data
         \<and> (\<forall>p\<in>set ps. py_slice data' (offset p) (offset p + 4) = replacement p)
         \<and> (\<forall>i<length data. (\<forall>p\<in>set ps. \<not> covers p i) \<longrightarrow> data' ! i = data ! i)"
  using assms by (rule plan_commit)


lemma plan_example:
  "create_patches (replicate 347447 0 @ [112, 8, 0, 0]) 5120 2880 =
     (fst (create_patches (replicate 347447 0 @ [112, 8, 0, 0]) 5120 2880),
      Inr [\<lparr>offset = 347447, original = [112, 8, 0, 0], replacement = [64, 11, 0, 0],
             description = ''Height getter (mov eax, 2160)''\<rparr>])"
proof -
  have "filter (matches (replicate 347447 0 @ [112, 8, 0, 0])) (fixed_descriptors 5120 2880) =
      [\<lparr>offset = 347447, original = [112, 8, 0, 0], replacement = [64, 11, 0, 0],
         description = ''Height getter (mov eax, 2160)''\<rparr>]"
    by (simp add: matches_def eval_simps)
  then show ?thesis by (simp add: create_patches_eq)
qed

theorem apply_patches_commit_frame_witness:
  "snd (snd (apply_patches (replicate 347447 0 @ [112, 8, 0, 0])
      [\<lparr>offset = 347447, original = [112, 8, 0, 0], replacement = [64, 11, 0, 0],
         description = ''Height getter (mov eax, 2160)''\<rparr>] False)) = None
   \<and> length (fst (apply_patches (replicate 347447 0 @ [112, 8, 0, 0])
      [\<lparr>offset = 347447, original = [112, 8, 0, 0], replacement = [64, 11, 0, 0],
         description = ''Height getter (mov eax, 2160)''\<rparr>] False)) = 347451
   \<and> py_slice (fst (apply_patches (replicate 347447 0 @ [112, 8, 0, 0])
      [\<lparr>offset = 347447, original = [112, 8, 0, 0], replacement = [64, 11, 0, 0],
         description = ''Height getter (mov eax, 2160)''\<rparr>] False)) 347447 347451 = [64, 11, 0, 0]
   \<and> fst (apply_patches (replicate 347447 0 @ [112, 8, 0, 0])
      [\<lparr>offset = 347447, original = [112, 8, 0, 0], replacement = [64, 11, 0, 0],
         description = ''Height getter (mov eax, 2160)''\<rparr>] False) ! 347446 = 0"
proof -
  let ?D = "replicate 347447 0 @ [112, 8, 0, 0] :: byte list"
  let ?P = "[\<lparr>offset = 347447, original = [112, 8, 0, 0], replacement = [64, 11, 0, 0],
               description = ''Height getter (mov eax, 2160)''\<rparr>]"
  have run: "apply_patches ?D ?P False =
     (fst (apply_patches ?D ?P False), fst (snd (apply_patches ?D ?P False)),
      snd (snd (apply_patches ?D ?P False)))"
    by simp
  have old: "?D ! 347446 = 0"
    by (simp add: nth_append)
  from apply_patches_commit_frame [OF plan_example run] old
  show ?thesis by (simp add: covers_def)
qed

text \<open>
  \<^bold>\<open>C4.\<close> On a plan that \<^verbatim>\<open>create_patches\<close> produced from the same buffer,
  \<^verbatim>\<open>apply_patches\<close> returns without an exception in either mode: every accepted
  patch has a non-negative offset with \<open>offset + 4\<close> inside the buffer and expected and
  replacement bytes of length four, and the buffer keeps its length.
\<close>

theorem apply_patches_total_on_plan:
  assumes "create_patches data tw th = (out, Inr ps)"
  shows "list_all (in_bounds data) ps
         \<and> (\<exists>data' out'. apply_patches data ps dry = (data', out', None)
               \<and> length data' = length data)"
proof -
  note inb = plan_facts(2) [OF assms]
  then have "\<forall>p\<in>set ps. length (original p) = 4 \<and> length (replacement p) = 4"
    by (simp add: in_bounds_def)
  from apply_patches_total [OF this] obtain d out1 where
    run: "apply_patches data ps dry = (d, out1, None)" by blast
  have "length d = length data"
  proof (cases dry)
    case True
    with run apply_patches_loop [of data ps True d out1 None] show ?thesis
      by (auto dest: apply_loop_dry)
  next
    case False
    with run apply_patches_loop [of data ps False d out1 None] inb show ?thesis
      by (auto dest: apply_loop_commit)
  qed
  with run inb show ?thesis by (simp add: list_all_iff)
qed

theorem apply_patches_total_on_plan_witness:
  "in_bounds (replicate 347447 0 @ [112, 8, 0, 0])
      \<lparr>offset = 347447, original = [112, 8, 0, 0], replacement = [64, 11, 0, 0],
         description = ''Height getter (mov eax, 2160)''\<rparr>
   \<and> (\<exists>data' out'. apply_patches (replicate 347447 0 @ [112, 8, 0, 0])
        [\<lparr>offset = 347447, original = [112, 8, 0, 0], replacement = [64, 11, 0, 0],
           description = ''Height getter (mov eax, 2160)''\<rparr>] False = (data', out', None)
        \<and> length data' = 347451)"
  using apply_patches_total_on_plan [OF plan_example, of False]
  by simp

subsection \<open>Planning again after a commit\<close>

lemma fixed_bytes:
  assumes "d \<in> set (fixed_descriptors tw th)"
  shows "original d = le32 3840 \<and> replacement d = le32 tw
         \<or> original d = le32 2160 \<and> replacement d = le32 th"
  using assms by (auto simp: fixed_descriptors_def code_patches_def Patch_init_def)

lemma separated_distinct:
  assumes "separated ps" "p \<in> set ps" "q \<in> set ps" "p \<noteq> q"
  shows "offset p + 4 \<le> offset q \<or> offset q + 4 \<le> offset p"
  using assms by (induction ps) auto

lemma frame_matches:
  assumes "length data' = length data" "0 \<le> offset d" "length (original d) = 4"
    and "\<forall>i<length data. covers d i \<longrightarrow> data' ! i = data ! i"
  shows "matches data' d = matches data d"
proof (cases "offset d + 4 \<le> int (length data)")
  case True
  have "data' ! (nat (offset d) + k) = data ! (nat (offset d) + k)" if "k < 4" for k
  proof -
    have "covers d (nat (offset d) + k)" using assms(2) that by (simp add: covers_def)
    moreover have "nat (offset d) + k < length data" using True assms(2) that by linarith
    ultimately show ?thesis using assms(4) by simp
  qed
  then show ?thesis
    by (simp add: matches_def py_slice_4_eq_iff [OF assms(2,3)] assms(1))
next
  case False
  then show ?thesis
    by (simp add: matches_def py_slice_4_eq_iff [OF assms(2,3)] assms(1))
qed

lemma no_match_after_commit:
  assumes plan: "create_patches data tw th = (out, Inr ps)"
    and run: "apply_patches data ps False = (data', out', r)"
    and w: "le32 tw \<noteq> le32 3840" and h: "le32 th \<noteq> le32 2160"
    and d: "d \<in> set (fixed_descriptors tw th)"
  shows "\<not> matches data' d"
proof (cases "d \<in> set ps")
  case True
  with plan_commit [OF plan run]
  have "py_slice data' (offset d) (offset d + 4) = replacement d" by simp
  moreover have "replacement d \<noteq> original d"
    using fixed_bytes [OF d] w h by auto
  ultimately show ?thesis by (simp add: matches_def)
next
  case False
  note eq = plan_facts(1) [OF plan]
  from False d have nm: "\<not> matches data d" by (simp add: eq)
  from plan_commit [OF plan run]
  have len: "length data' = length data"
    and frame: "\<forall>i<length data. (\<forall>p\<in>set ps. \<not> covers p i) \<longrightarrow> data' ! i = data ! i"
    by simp_all
  have "data' ! i = data ! i" if i: "i < length data" and c: "covers d i" for i
  proof -
    have "\<not> covers p i" if p: "p \<in> set ps" for p
    proof -
      from p have "p \<in> set (fixed_descriptors tw th)" by (simp add: eq)
      moreover from p False have "p \<noteq> d" by auto
      ultimately have "offset p + 4 \<le> offset d \<or> offset d + 4 \<le> offset p"
        using separated_distinct [OF separated_fixed _ d] by blast
      with c show ?thesis by (auto simp: covers_def)
    qed
    with frame i show ?thesis by simp
  qed
  then have "matches data' d = matches data d"
    using fixed_shape [OF d] len by (intro frame_matches) simp_all
  with nm show ?thesis by simp
qed

text \<open>
  \<^bold>\<open>C5.\<close> When the encodings of the target width and height differ from those of 3840
  and 2160, planning, committing the plan and planning again on the written buffer
  gives an empty second plan: no fixed offset holds its expected bytes any more.
\<close>

theorem create_patches_after_commit_accepts_nothing:
  assumes "pack_I tw = Inr new_width" "pack_I th = Inr new_height"
    and "new_width \<noteq> le32 3840" "new_height \<noteq> le32 2160"
  shows "\<exists>out ps data' out' out''.
           create_patches data tw th = (out, Inr ps)
           \<and> apply_patches data ps False = (data', out', None)
           \<and> create_patches data' tw th = (out'', Inr [])"
proof -
  from assms(1,2) have range: "0 \<le> tw" "tw < 2 ^ 32" "0 \<le> th" "th < 2 ^ 32"
    and nw: "new_width = le32 tw" and nh: "new_height = le32 th"
    by (simp_all add: pack_I_Inr)
  obtain out ps where plan: "create_patches data tw th = (out, Inr ps)"
    using create_patches_eq [OF range] by blast
  have "\<forall>p\<in>set ps. length (original p) = 4 \<and> length (replacement p) = 4"
    using plan_facts(2) [OF plan] by (simp add: in_bounds_def)
  from apply_patches_total [OF this] obtain data' out' where
    run: "apply_patches data ps False = (data', out', None)" by blast
  have "filter (matches data') (fixed_descriptors tw th) = []"
    using no_match_after_commit [OF plan run] assms(3,4) nw nh
    by (simp add: filter_empty_conv)
  then have "create_patches data' tw th = (fst (create_patches data' tw th), Inr [])"
    by (simp add: create_patches_eq [OF range])
  with plan run show ?thesis by blast
qed

theorem create_patches_after_commit_accepts_nothing_witness:
  "\<exists>out ps data' out' out''.
     create_patches (replicate 347447 0 @ [112, 8, 0, 0]) 5120 2880 = (out, Inr ps)
     \<and> apply_patches (replicate 347447 0 @ [112, 8, 0, 0]) ps False = (data', out', None)
     \<and> create_patches data' 5120 2880 = (out'', Inr [])"
  using create_patches_after_commit_accepts_nothing
    [of 5120 "[0, 20, 0, 0]" 2880 "[64, 11, 0, 0]" "replicate 347447 0 @ [112, 8, 0, 0]"]
  by (simp add: pack_I_def le32_def)

subsection \<open>Descriptor lengths\<close>

lemmas apply_simps =
  apply_patches_def unpack_I_def py_slice_assign_def slice_index_def Patch_init_def Let_def

text \<open>
  \<^bold>\<open>C6\<close>, as the claim states it, fails: the constructor accepts a descriptor whose
  expected bytes have length four and whose replacement has length two, and the
  mismatch comes to light only inside \<^verbatim>\<open>apply_patches\<close>, as a \<^verbatim>\<open>struct\<close> error at that
  descriptor, after the descriptor before it has been written into the buffer.
\<close>

theorem Patch_length_mismatch_counterexample:
  "length (original (Patch_init 4 [5, 6, 7, 8] [9, 9] ''bad''))
     \<noteq> length (replacement (Patch_init 4 [5, 6, 7, 8] [9, 9] ''bad''))
   \<and> fst (apply_patches [1, 2, 3, 4, 5, 6, 7, 8]
        [Patch_init 0 [1, 2, 3, 4] [9, 9, 9, 9] ''good'',
         Patch_init 4 [5, 6, 7, 8] [9, 9] ''bad''] False) = [9, 9, 9, 9, 5, 6, 7, 8]
   \<and> snd (snd (apply_patches [1, 2, 3, 4, 5, 6, 7, 8]
        [Patch_init 0 [1, 2, 3, 4] [9, 9, 9, 9] ''good'',
         Patch_init 4 [5, 6, 7, 8] [9, 9] ''bad''] False)) = Some StructError"
  by (simp add: apply_simps)

text \<open>
  \<^bold>\<open>C6\<close>, amended. The constructor checks nothing, but every descriptor that
  \<^verbatim>\<open>create_patches\<close> constructs has expected and replacement bytes of the same length,
  so on a plan of \<^verbatim>\<open>create_patches\<close> no length mismatch is met inside
  \<^verbatim>\<open>apply_patches\<close>: it returns without an exception, on any buffer and in either mode.
\<close>

theorem plan_lengths_agree:
  assumes "create_patches data tw th = (out, Inr ps)"
  shows "list_all (\<lambda>p. length (original p) = length (replacement p)) ps
         \<and> (\<exists>buf' out'. apply_patches buf ps dry = (buf', out', None))"
proof -
  have l: "\<forall>p\<in>set ps. length (original p) = 4 \<and> length (replacement p) = 4"
    using plan_facts(2) [OF assms] by (simp add: in_bounds_def)
  from apply_patches_total [OF l] l show ?thesis
    by (simp add: list_all_iff)
qed

theorem plan_lengths_agree_witness:
  "length (original \<lparr>offset = 347447, original = [112, 8, 0, 0], replacement = [64, 11, 0, 0],
       description = ''Height getter (mov eax, 2160)''\<rparr>) = 4
   \<and> (\<exists>buf' out'. apply_patches []
        [\<lparr>offset = 347447, original = [112, 8, 0, 0], replacement = [64, 11, 0, 0],
           description = ''Height getter (mov eax, 2160)''\<rparr>] False = (buf', out', None))"
  using plan_lengths_agree [OF plan_example, of "[]" False]
  by simp

subsection \<open>Reports of skipped descriptors\<close>

lemma replicate_2: "replicate 2 x = [x, x]"
  by (simp add: numeral_2_eq_2)

text \<open>
  \<^bold>\<open>C7\<close>, evaluated on a buffer of \<open>0xBDA4F2\<close> zero bytes with the default target
  5120x2880. The ranges of both table descriptors (\<open>0xBDA4F0\<close> and \<open>0xBDA4F4\<close>) extend
  past the end of the buffer. \<^verbatim>\<open>create_patches\<close> returns an empty plan and raises
  nothing, but its output holds the banner and one warning for each of the four
  code-site descriptors only: the two table descriptors are skipped with no record.
\<close>

theorem create_patches_table_out_of_bounds:
  "create_patches (replicate 12428530 0) 5120 2880 =
     ([''\<newline>Patching 3840x2160 -> 5120x2880'',
       ''WARNING: Mismatch at 0x54DF7, skipping: Width getter (mov eax, 3840)'',
       ''WARNING: Mismatch at 0x4B4305, skipping: Resolution param width (mov edx, 3840)'',
       ''WARNING: Mismatch at 0x54D37, skipping: Height getter (mov eax, 2160)'',
       ''WARNING: Mismatch at 0x4B430B, skipping: Resolution param height (mov r8d, 2160)''],
      Inr [])"
  by (simp add: eval_simps replicate_2)

theorem create_patches_table_out_of_bounds_witness:
  "snd (create_patches (replicate 12428530 0) 5120 2880) = Inr []
   \<and> length (fst (create_patches (replicate 12428530 0) 5120 2880)) = 5"
  using create_patches_table_out_of_bounds by simp

text \<open>
  \<^bold>\<open>C8\<close>, as the claim states it, fails. Two buffers hold different bytes at the
  code-site offset \<open>0x54D37\<close>, neither the expected ones; the descriptor is skipped on
  both, and the output is the same list of lines on both, so the report of a skip does
  not state the bytes observed. The table descriptors are skipped on both as well, and
  no line reports it.
\<close>

theorem skip_report_counterexample:
  "py_slice (replicate 347451 0 :: byte list) 347447 347451 = [0, 0, 0, 0]
   \<and> py_slice (replicate 347451 1 :: byte list) 347447 347451 = [1, 1, 1, 1]
   \<and> create_patches (replicate 347451 0) 5120 2880 =
     ([''\<newline>Patching 3840x2160 -> 5120x2880'',
       ''WARNING: Mismatch at 0x54DF7, skipping: Width getter (mov eax, 3840)'',
       ''WARNING: Mismatch at 0x4B4305, skipping: Resolution param width (mov edx, 3840)'',
       ''WARNING: Mismatch at 0x54D37, skipping: Height getter (mov eax, 2160)'',
       ''WARNING: Mismatch at 0x4B430B, skipping: Resolution param height (mov r8d, 2160)''],
      Inr [])
   \<and> create_patches (replicate 347451 1) 5120 2880 =
     ([''\<newline>Patching 3840x2160 -> 5120x2880'',
       ''WARNING: Mismatch at 0x54DF7, skipping: Width getter (mov eax, 3840)'',
       ''WARNING: Mismatch at 0x4B4305, skipping: Resolution param width (mov edx, 3840)'',
       ''WARNING: Mismatch at 0x54D37, skipping: Height getter (mov eax, 2160)'',
       ''WARNING: Mismatch at 0x4B430B, skipping: Resolution param height (mov r8d, 2160)''],
      Inr [])"
  by (simp add: eval_simps)

text \<open>
  \<^bold>\<open>C8\<close>, amended. Every entry of \<^verbatim>\<open>code_patches\<close> that the plan does not accept has
  its warning line in the output; the line is built from the offset, in hexadecimal,
  and from the description, and from nothing else.
\<close>

theorem skipped_code_site_is_warned:
  assumes "create_patches data tw th = (out, Inr ps)"
    and "(off, orig, new, desc) \<in> set (code_patches (le32 3840) (le32 2160) (le32 tw) (le32 th))"
    and "Patch_init off orig new desc \<notin> set ps"
  shows "''WARNING: Mismatch at 0x'' @ format_X off @ '', skipping: '' @ desc \<in> set out"
proof -
  let ?cps = "code_patches (le32 3840) (le32 2160) (le32 tw) (le32 th)"
  note range = create_patches_Inr [OF assms(1)]
  from range assms(1)
  have out: "out = banner tw th # map (\<lambda>(off, orig, new, desc). warning off desc)
                (filter (\<lambda>(off, orig, new, desc). py_slice data off (off + 4) \<noteq> orig) ?cps)"
    and ps: "ps = filter (matches data) (fixed_descriptors tw th)"
    by (simp_all add: create_patches_eq)
  have "Patch_init off orig new desc \<in> set (fixed_descriptors tw th)"
    using assms(2) by (force simp: fixed_descriptors_def)
  with assms(3) have "py_slice data off (off + 4) \<noteq> orig"
    by (simp add: ps matches_Patch_init)
  with assms(2) have "(off, orig, new, desc)
      \<in> set (filter (\<lambda>(off, orig, new, desc). py_slice data off (off + 4) \<noteq> orig) ?cps)"
    by simp
  then have "warning off desc \<in> set out"
    unfolding out by force
  then show ?thesis by (simp add: warning_def)
qed

theorem skipped_code_site_is_warned_witness:
  "''WARNING: Mismatch at 0x54DF7, skipping: Width getter (mov eax, 3840)''
     \<in> set (fst (create_patches (replicate 347447 0 @ [112, 8, 0, 0]) 5120 2880))"
proof -
  have "(347639, le32 3840, le32 5120, ''Width getter (mov eax, 3840)'')
      \<in> set (code_patches (le32 3840) (le32 2160) (le32 5120) (le32 2880))"
    by (simp add: code_patches_def)
  moreover have "Patch_init 347639 (le32 3840) (le32 5120) ''Width getter (mov eax, 3840)''
      \<notin> set [\<lparr>offset = 347447, original = [112, 8, 0, 0], replacement = [64, 11, 0, 0],
             description = ''Height getter (mov eax, 2160)''\<rparr>]"
    by (simp add: Patch_init_def)
  ultimately show ?thesis
    using skipped_code_site_is_warned [OF plan_example, of 347639 "le32 3840" "le32 5120"
        "''Width getter (mov eax, 3840)''"]
    by (simp add: format_X_def digits.simps digit_char_def)
qed

subsection \<open>The empty plan in \<^verbatim>\<open>main\<close>\<close>

text \<open>
  \<^bold>\<open>C9.\<close> When the file exists and \<^verbatim>\<open>create_patches\<close> returns the empty plan,
  \<^verbatim>\<open>main\<close> returns 1 after printing the message that no patches could be created: the
  output ends with that message and holds nothing of \<^verbatim>\<open>apply_patches\<close>, and the file
  system is as it was (no backup, no rewritten file).
\<close>

theorem main_empty_plan_fails:
  assumes "files (exe_path a) = Some content"
    and "create_patches content (width a) (height a) = (out1, Inr [])"
  shows "main a backup_path files =
           (files, main_header a content @ out1 @ [no_patches_message], Inr 1)"
  using assms by (simp add: main_def main_header_def Let_def)

theorem main_empty_plan_fails_witness:
  "main \<lparr>exe_path = ''HUNDRED_LINE.exe'', dry_run = False, width = 5120, height = 2880,
          no_backup = False\<rparr>
      ''HUNDRED_LINE.exe.backup'' [''HUNDRED_LINE.exe'' \<mapsto> []] =
     ([''HUNDRED_LINE.exe'' \<mapsto> []],
      [''Resolution Patch for The Hundred Line'',
       ''Target resolution: 5120x2880'',
       ''============================================================'',
       ''File size: 0 bytes'',
       ''\<newline>Patching 3840x2160 -> 5120x2880'',
       ''WARNING: Mismatch at 0x54DF7, skipping: Width getter (mov eax, 3840)'',
       ''WARNING: Mismatch at 0x4B4305, skipping: Resolution param width (mov edx, 3840)'',
       ''WARNING: Mismatch at 0x54D37, skipping: Height getter (mov eax, 2160)'',
       ''WARNING: Mismatch at 0x4B430B, skipping: Resolution param height (mov r8d, 2160)'',
       ''\<newline>No patches could be created. The executable may be different from expected.''],
      Inr 1)"
proof -
  let ?a = "\<lparr>exe_path = ''HUNDRED_LINE.exe'', dry_run = False, width = 5120, height = 2880,
          no_backup = False\<rparr>"
  have f: "[''HUNDRED_LINE.exe'' \<mapsto> ([] :: byte list)] (exe_path ?a) = Some []"
    by simp
  have p: "create_patches [] (width ?a) (height ?a) =
     ([''\<newline>Patching 3840x2160 -> 5120x2880'',
       ''WARNING: Mismatch at 0x54DF7, skipping: Width getter (mov eax, 3840)'',
       ''WARNING: Mismatch at 0x4B4305, skipping: Resolution param width (mov edx, 3840)'',
       ''WARNING: Mismatch at 0x54D37, skipping: Height getter (mov eax, 2160)'',
       ''WARNING: Mismatch at 0x4B430B, skipping: Resolution param height (mov r8d, 2160)''],
      Inr [])"
    by (simp add: eval_simps)
  have r: "rule_line = ''============================================================''"
    by (simp add: rule_line_def eval_nat_numeral)
  show ?thesis
    using main_empty_plan_fails [where files = "[''HUNDRED_LINE.exe'' \<mapsto> []]" and a = ?a
        and content = "[]" and backup_path = "''HUNDRED_LINE.exe.backup''", OF f p]
    by (simp add: main_header_def no_patches_message_def r str_int_def digits.simps
        digit_char_def format_comma.simps)
qed

end
